theory Spec2Isabelle
  imports Complex_Main
begin

section \<open>The similarity script: data model\<close>

text \<open>
  The script \<^verbatim>\<open>scripts/similarity/get_similarity_score.py\<close> embeds a resume and a job
  description with an embedding service, stores the resume vector in a vector store and
  ranks it against the job description. Both services are outside the repository; they
  are parameters of the model (the record \<open>env\<close>), each call returning either a value
  or the exception it raised.
\<close>

text \<open>
  The Python exceptions that occur: the two that \<^verbatim>\<open>read_config\<close> names, the ones the
  interpreter raises on a bad subscript or a bad unpacking, and \<open>Raised msg\<close> for any
  other exception coming out of a library call. \<open>ConfigurationError\<close> is the kind the
  specification names; no path of the source raises it.
\<close>

datatype exn =
    FileNotFoundError
  | YAMLError
  | TypeError
  | KeyError string
  | IndexError
  | ConfigurationError
  | Raised string

text \<open>The values \<^verbatim>\<open>yaml.safe_load\<close> produces, and the payloads of the vector store.\<close>

datatype py =
    PyNone
  | PyStr string
  | PyInt int
  | PyList "py list"
  | PyDict "(string \<times> py) list"

text \<open>\<^verbatim>\<open>obj[key]\<close> with a string key: only a dict accepts it.\<close>

fun getitem :: "py \<Rightarrow> string \<Rightarrow> exn + py" where
  "getitem (PyDict kvs) k = (case map_of kvs k of None \<Rightarrow> Inl (KeyError k) | Some v \<Rightarrow> Inr v)"
| "getitem _ k = Inl TypeError"

datatype distance = COSINE | EUCLID | DOT

text \<open>A scored point as \<^verbatim>\<open>qdrant.search\<close> returns it; the script reads these two fields.\<close>

record hit =
  hit_payload :: py
  hit_score :: real

text \<open>The dict \<^verbatim>\<open>{"text": ..., "score": ...}\<close> built for each hit.\<close>

record match_result =
  result_text :: string
  result_score :: real

text \<open>The calls made to the two services, in the order they are made.\<close>

datatype call =
    is_Embed: Embed "string list" string
  | is_RecreateCollection: RecreateCollection string nat distance
  | is_Upsert: Upsert string "nat list" "real list list" "py list"
  | is_Search: Search string "real list" nat

text \<open>
  A log call: the fixed part of the message and, for an error, the exception that the
  f-string renders into it.
\<close>

datatype log_entry = LogInfo string | LogError string exn

text \<open>
  The services and the file system. The vector store has a state of its own, of a type
  \<open>'s\<close> the script never inspects; a call that changes it returns the exception, if
  any, and the store it leaves. \<open>load_yaml\<close> is \<^verbatim>\<open>open\<close> followed by
  \<^verbatim>\<open>yaml.safe_load\<close>, \<open>py_str\<close> is Python's \<^verbatim>\<open>str\<close> on a payload, and
  \<open>config_path\<close> is the module-level path computed when the module is imported. A
  string is the list of its characters, so the slice \<^verbatim>\<open>[:30]\<close> is \<open>take 30\<close>; a score
  and a vector component are real numbers.
\<close>

record 's env =
  config_path :: string
  load_yaml :: "string \<Rightarrow> exn + py"
  cohere_Client :: "py \<Rightarrow> exn option"
  QdrantClient :: "py \<Rightarrow> py \<Rightarrow> exn option"
  embed :: "string list \<Rightarrow> string \<Rightarrow> exn + real list list"
  recreate_collection :: "'s \<Rightarrow> string \<Rightarrow> nat \<Rightarrow> distance \<Rightarrow> exn option \<times> 's"
  upsert :: "'s \<Rightarrow> string \<Rightarrow> nat list \<Rightarrow> real list list \<Rightarrow> py list \<Rightarrow> exn option \<times> 's"
  qdrant_search :: "'s \<Rightarrow> string \<Rightarrow> real list \<Rightarrow> nat \<Rightarrow> exn + hit list"
  py_str :: "py \<Rightarrow> string"

text \<open>What an invocation changes: the store, the calls made so far, the log.\<close>

record 's world =
  store :: 's
  calls :: "call list"
  logged :: "log_entry list"

definition record_call :: "call \<Rightarrow> 's world \<Rightarrow> 's world" where
  "record_call c w = w\<lparr>calls := calls w @ [c]\<rparr>"

definition write_log :: "log_entry \<Rightarrow> 's world \<Rightarrow> 's world" where
  "write_log l w = w\<lparr>logged := logged w @ [l]\<rparr>"

text \<open>The fields \<^verbatim>\<open>__init__\<close> sets on a \<^verbatim>\<open>QdrantSearch\<close> object.\<close>

record qdrant_search_obj =
  cohere_key :: py
  qdrant_key :: py
  qdrant_url :: py
  resumes :: "string list"
  jd :: string

definition collection_name :: string where
  "collection_name = ''collection_resume_matcher''"

section \<open>The functions of the script\<close>

text \<open>
  \<^verbatim>\<open>read_config\<close>: three \<^verbatim>\<open>except\<close> clauses, tried in order, each logging its own
  message; every failure ends in \<^verbatim>\<open>return None\<close>.
\<close>

fun config_error_message :: "exn \<Rightarrow> string" where
  "config_error_message FileNotFoundError = ''Configuration file not found''"
| "config_error_message YAMLError = ''Error parsing YAML in configuration file''"
| "config_error_message _ = ''Error reading configuration file''"

definition read_config :: "'s env \<Rightarrow> string \<Rightarrow> 's world \<Rightarrow> py \<times> 's world" where
  "read_config env filepath w =
     (case load_yaml env filepath of
        Inr config \<Rightarrow> (config, w)
      | Inl e \<Rightarrow> (PyNone, write_log (LogError (config_error_message e) e) w))"

text \<open>
  \<^verbatim>\<open>QdrantSearch.__init__\<close>: the three subscripts of the configuration, the two clients,
  then the collection recreated with the constant size 4096. None of it is inside a
  \<^verbatim>\<open>try\<close>.
\<close>

definition QdrantSearch_init ::
  "'s env \<Rightarrow> string list \<Rightarrow> string \<Rightarrow> 's world \<Rightarrow> (exn + qdrant_search_obj) \<times> 's world" where
  "QdrantSearch_init env resumes_arg jd_arg w =
     (case read_config env (config_path env @ ''/config.yml'') w of (config, w1) \<Rightarrow>
      (case getitem config ''cohere'' of Inl e \<Rightarrow> (Inl e, w1) | Inr c \<Rightarrow>
      (case getitem c ''api_key'' of Inl e \<Rightarrow> (Inl e, w1) | Inr ck \<Rightarrow>
      (case getitem config ''qdrant'' of Inl e \<Rightarrow> (Inl e, w1) | Inr q \<Rightarrow>
      (case getitem q ''api_key'' of Inl e \<Rightarrow> (Inl e, w1) | Inr qk \<Rightarrow>
      (case getitem config ''qdrant'' of Inl e \<Rightarrow> (Inl e, w1) | Inr q' \<Rightarrow>
      (case getitem q' ''url'' of Inl e \<Rightarrow> (Inl e, w1) | Inr qu \<Rightarrow>
      (case cohere_Client env ck of Some e \<Rightarrow> (Inl e, w1) | None \<Rightarrow>
      (case QdrantClient env qu qk of Some e \<Rightarrow> (Inl e, w1) | None \<Rightarrow>
      (let vector_size = 4096;
           w2 = record_call (RecreateCollection collection_name vector_size COSINE) w1
       in case recreate_collection env (store w2) collection_name vector_size COSINE of
            (Some e, s) \<Rightarrow> (Inl e, w2\<lparr>store := s\<rparr>)
          | (None, s) \<Rightarrow>
              (Inr \<lparr>cohere_key = ck, qdrant_key = qk, qdrant_url = qu,
                    resumes = resumes_arg, jd = jd_arg\<rparr>,
               w2\<lparr>store := s\<rparr>)))))))))))"

text \<open>
  \<^verbatim>\<open>get_embedding\<close>: the call and the subscript \<^verbatim>\<open>embeddings[0]\<close> are inside the
  \<^verbatim>\<open>try\<close>; the \<^verbatim>\<open>except\<close> branch logs and falls off the end of the function, so the
  method returns \<^verbatim>\<open>None\<close> there.
\<close>

definition get_embedding ::
  "'s env \<Rightarrow> qdrant_search_obj \<Rightarrow> string \<Rightarrow> 's world \<Rightarrow> (real list \<times> nat) option \<times> 's world" where
  "get_embedding env self text_arg w =
     (let w1 = record_call (Embed [text_arg] ''large'') w
      in case embed env [text_arg] ''large'' of
           Inl e \<Rightarrow> (None, write_log (LogError ''Error getting embeddings'' e) w1)
         | Inr [] \<Rightarrow> (None, write_log (LogError ''Error getting embeddings'' IndexError) w1)
         | Inr (v # _) \<Rightarrow> (Some (v, length v), w1))"

text \<open>
  The loop of \<^verbatim>\<open>update_qdrant\<close>. The tuple assignment
  \<^verbatim>\<open>vector, size = self.get_embedding(resume)\<close> raises \<^verbatim>\<open>TypeError\<close> on
  \<^verbatim>\<open>None\<close>, outside any \<^verbatim>\<open>try\<close>.
\<close>

fun embed_resumes ::
  "'s env \<Rightarrow> qdrant_search_obj \<Rightarrow> string list \<Rightarrow> nat \<Rightarrow> real list list \<Rightarrow> nat list \<Rightarrow> 's world
     \<Rightarrow> (exn + real list list \<times> nat list) \<times> 's world" where
  "embed_resumes env self [] i vectors ids w = (Inr (vectors, ids), w)"
| "embed_resumes env self (resume # rest) i vectors ids w =
     (case get_embedding env self resume w of
        (None, w1) \<Rightarrow> (Inl TypeError, w1)
      | (Some (vector, size_v), w1) \<Rightarrow>
          embed_resumes env self rest (Suc i) (vectors @ [vector]) (ids @ [i]) w1)"

definition update_qdrant ::
  "'s env \<Rightarrow> qdrant_search_obj \<Rightarrow> 's world \<Rightarrow> (exn + unit) \<times> 's world" where
  "update_qdrant env self w =
     (case embed_resumes env self (resumes self) 0 [] [] w of
        (Inl e, w1) \<Rightarrow> (Inl e, w1)
      | (Inr (vectors, ids), w1) \<Rightarrow>
          (let payloads = map (\<lambda>resume. PyDict [(''text'', PyStr resume)]) (resumes self);
               w2 = record_call (Upsert collection_name ids vectors payloads) w1
           in case upsert env (store w2) collection_name ids vectors payloads of
                (None, s) \<Rightarrow> (Inr (), w2\<lparr>store := s\<rparr>)
              | (Some e, s) \<Rightarrow>
                  (Inr (),
                   write_log (LogError ''Error upserting the vectors to the qdrant collection'' e)
                     (w2\<lparr>store := s\<rparr>))))"

text \<open>The loop of \<^verbatim>\<open>search\<close> that appends one dict per hit.\<close>

fun collect_results :: "'s env \<Rightarrow> hit list \<Rightarrow> match_result list \<Rightarrow> match_result list" where
  "collect_results env [] results = results"
| "collect_results env (h # hits) results =
     collect_results env hits
       (results @ [\<lparr>result_text = take 30 (py_str env (hit_payload h)), result_score = hit_score h\<rparr>])"

text \<open>
  \<^verbatim>\<open>search\<close>: the same unpacking of \<^verbatim>\<open>get_embedding\<close>'s result, then the query with
  \<^verbatim>\<open>limit=30\<close>, which is not inside a \<^verbatim>\<open>try\<close>.
\<close>

definition search ::
  "'s env \<Rightarrow> qdrant_search_obj \<Rightarrow> 's world \<Rightarrow> (exn + match_result list) \<times> 's world" where
  "search env self w =
     (case get_embedding env self (jd self) w of
        (None, w1) \<Rightarrow> (Inl TypeError, w1)
      | (Some (vector, _), w1) \<Rightarrow>
          (let w2 = record_call (Search collection_name vector 30) w1
           in case qdrant_search env (store w2) collection_name vector 30 of
                Inl e \<Rightarrow> (Inl e, w2)
              | Inr hits \<Rightarrow> (Inr (collect_results env hits []), w2)))"

definition get_similarity_score ::
  "'s env \<Rightarrow> string \<Rightarrow> string \<Rightarrow> 's world \<Rightarrow> (exn + match_result list) \<times> 's world" where
  "get_similarity_score env resume_string job_description_string w =
     (let w0 = write_log (LogInfo ''Started getting similarity score'') w
      in case QdrantSearch_init env [resume_string] job_description_string w0 of
           (Inl e, w1) \<Rightarrow> (Inl e, w1)
         | (Inr qdrant_search_v, w1) \<Rightarrow>
             (case update_qdrant env qdrant_search_v w1 of
                (Inl e, w2) \<Rightarrow> (Inl e, w2)
              | (Inr _, w2) \<Rightarrow>
                  (case search env qdrant_search_v w2 of
                     (Inl e, w3) \<Rightarrow> (Inl e, w3)
                   | (Inr search_result, w3) \<Rightarrow>
                       (Inr search_result,
                        write_log (LogInfo ''Finished getting similarity score'') w3))))"

section \<open>Notions used to state the properties\<close>

text \<open>
  The vector \<^verbatim>\<open>get_embedding\<close> hands back for a text: the first embedding of the
  service's answer, when the call succeeds and the answer has one.
\<close>

definition embedding_of :: "'s env \<Rightarrow> string \<Rightarrow> real list option" where
  "embedding_of env text_arg =
     (case embed env [text_arg] ''large'' of
        Inl e \<Rightarrow> None
      | Inr [] \<Rightarrow> None
      | Inr (v # _) \<Rightarrow> Some v)"

text \<open>The payload \<^verbatim>\<open>{"text": resume}\<close>.\<close>

definition text_payload :: "string \<Rightarrow> py" where
  "text_payload resume = PyDict [(''text'', PyStr resume)]"

text \<open>The dict built from one hit.\<close>

definition to_result :: "'s env \<Rightarrow> hit \<Rightarrow> match_result" where
  "to_result env h =
     \<lparr>result_text = take 30 (py_str env (hit_payload h)), result_score = hit_score h\<rparr>"

text \<open>The calls an invocation adds to those made before it.\<close>

definition new_calls :: "'s world \<Rightarrow> 's world \<Rightarrow> call list" where
  "new_calls w w' = drop (length (calls w)) (calls w')"

text \<open>The five calls of an invocation in which nothing fails.\<close>

definition full_run :: "'s env \<Rightarrow> string \<Rightarrow> string \<Rightarrow> call list" where
  "full_run env resume_string job_description_string =
     [RecreateCollection collection_name 4096 COSINE,
      Embed [resume_string] ''large'',
      Upsert collection_name [0] [the (embedding_of env resume_string)] [text_payload resume_string],
      Embed [job_description_string] ''large'',
      Search collection_name (the (embedding_of env job_description_string)) 30]"

text \<open>
  The store after the constructor's \<^verbatim>\<open>recreate_collection\<close> call, and the store after
  the upsert of the one resume into that collection.
\<close>

definition created_store :: "'s env \<Rightarrow> 's \<Rightarrow> 's" where
  "created_store env s = snd (recreate_collection env s collection_name 4096 COSINE)"

definition upserted_store :: "'s env \<Rightarrow> string \<Rightarrow> 's \<Rightarrow> 's" where
  "upserted_store env resume_string s =
     snd (upsert env (created_store env s) collection_name [0]
            [the (embedding_of env resume_string)] [text_payload resume_string])"

section \<open>Services for the examples\<close>

text \<open>
  A small in-memory vector store and a toy embedding, used to run the functions on
  concrete inputs: points are kept in a list, the collection is emptied on recreation,
  a search scores every point by the dot product with the query.
\<close>

type_synonym point = "nat \<times> real list \<times> py"

definition demo_config :: py where
  "demo_config =
     PyDict [(''cohere'', PyDict [(''api_key'', PyStr ''ck'')]),
             (''qdrant'', PyDict [(''api_key'', PyStr ''qk''), (''url'', PyStr ''qu'')])]"

fun demo_str :: "py \<Rightarrow> string" where
  "demo_str (PyDict [(k, PyStr v)]) = ''{'' @ k @ '': '' @ v @ ''}''"
| "demo_str _ = ''None''"

definition dot :: "real list \<Rightarrow> real list \<Rightarrow> real" where
  "dot u v = sum_list (map2 (*) u v)"

definition demo_env :: "point list env" where
  "demo_env =
     \<lparr>config_path = ''cfg'',
      load_yaml = (\<lambda>p. if p = ''cfg/config.yml'' then Inr demo_config else Inl FileNotFoundError),
      cohere_Client = (\<lambda>k. None),
      QdrantClient = (\<lambda>u k. None),
      embed = (\<lambda>texts model. Inr (map (\<lambda>t. [real (length t), 1]) texts)),
      recreate_collection = (\<lambda>s c n d. (None, [])),
      upsert = (\<lambda>s c ids vs ps. (None, s @ zip ids (zip vs ps))),
      qdrant_search =
        (\<lambda>s c q k. Inr (take k (map (\<lambda>(i, v, p). \<lparr>hit_payload = p, hit_score = dot q v\<rparr>) s))),
      py_str = demo_str\<rparr>"

text \<open>A store answering every query with the same three hits, best first.\<close>

definition ranked_hits :: "hit list" where
  "ranked_hits =
     [\<lparr>hit_payload = text_payload ''python backend developer docker kubernetes'', hit_score = 9\<rparr>,
      \<lparr>hit_payload = text_payload ''java'', hit_score = 5\<rparr>,
      \<lparr>hit_payload = PyNone, hit_score = 1\<rparr>]"

definition ranked_env :: "point list env" where
  "ranked_env = demo_env\<lparr>qdrant_search := (\<lambda>s c q k. Inr (take k ranked_hits))\<rparr>"

text \<open>Services that fail: the embedding call, the search call, the configuration file.\<close>

definition embed_fails_env :: "point list env" where
  "embed_fails_env = demo_env\<lparr>embed := (\<lambda>texts model. Inl (Raised ''timeout''))\<rparr>"

definition search_fails_env :: "point list env" where
  "search_fails_env = demo_env\<lparr>qdrant_search := (\<lambda>s c q k. Inl (Raised ''unavailable''))\<rparr>"

definition no_config_env :: "point list env" where
  "no_config_env = demo_env\<lparr>load_yaml := (\<lambda>p. Inl FileNotFoundError)\<rparr>"

definition bad_yaml_env :: "point list env" where
  "bad_yaml_env = demo_env\<lparr>load_yaml := (\<lambda>p. Inl YAMLError)\<rparr>"

text \<open>A world whose store still holds a point of an earlier run.\<close>

definition world0 :: "point list world" where
  "world0 = \<lparr>store = [(7, [1, 1], text_payload ''old'')], calls = [], logged = []\<rparr>"

text \<open>
  A second store for the examples, which keeps what it was asked: the size and distance
  the collection was created with, the number of upsert requests received since, and the
  points. Its initial state is a collection of size 2 left by an earlier run.
\<close>

record journal_store =
  created :: "(nat \<times> distance) option"
  batches :: nat
  points :: "point list"

definition journal_env :: "journal_store env" where
  "journal_env =
     \<lparr>config_path = ''cfg'',
      load_yaml = (\<lambda>p. if p = ''cfg/config.yml'' then Inr demo_config else Inl FileNotFoundError),
      cohere_Client = (\<lambda>k. None),
      QdrantClient = (\<lambda>u k. None),
      embed = (\<lambda>texts model. Inr (map (\<lambda>t. [real (length t), 1]) texts)),
      recreate_collection = (\<lambda>s c n d. (None, \<lparr>created = Some (n, d), batches = 0, points = []\<rparr>)),
      upsert = (\<lambda>s c ids vs ps.
                  (None, s\<lparr>batches := Suc (batches s), points := points s @ zip ids (zip vs ps)\<rparr>)),
      qdrant_search =
        (\<lambda>s c q k. Inr (take k (map (\<lambda>(i, v, p). \<lparr>hit_payload = p, hit_score = dot q v\<rparr>)
                                   (points s)))),
      py_str = demo_str\<rparr>"

definition journal_embed_fails_env :: "journal_store env" where
  "journal_embed_fails_env = journal_env\<lparr>embed := (\<lambda>texts model. Inl (Raised ''timeout''))\<rparr>"

definition journal_world0 :: "journal_store world" where
  "journal_world0 =
     \<lparr>store = \<lparr>created = Some (2, DOT), batches = 5, points = [(7, [1, 1], text_payload ''old'')]\<rparr>,
      calls = [], logged = []\<rparr>"

text \<open>
  A store that refuses to recreate the collection.
\<close>

definition recreate_fails_env :: "point list env" where
  "recreate_fails_env =
     demo_env\<lparr>recreate_collection := (\<lambda>s c n d. (Some (Raised ''refused''), s))\<rparr>"

text \<open>An object as the constructor leaves it, for one resume.\<close>

definition demo_self :: qdrant_search_obj where
  "demo_self =
     \<lparr>cohere_key = PyStr ''ck'', qdrant_key = PyStr ''qk'', qdrant_url = PyStr ''qu'',
      resumes = [''python''], jd = ''backend''\<rparr>"

text \<open>
  The one upsert \<^verbatim>\<open>update_qdrant\<close> makes when every resume has an embedding: the
  identifiers count the resumes from 0, the vectors and payloads follow their order.
\<close>

definition upsert_call :: "'s env \<Rightarrow> string list \<Rightarrow> call" where
  "upsert_call env rs =
     Upsert collection_name [0..<length rs] (map (\<lambda>r. the (embedding_of env r)) rs)
       (map text_payload rs)"

text \<open>Objects with two resumes and with none, and the results of the fixed hits.\<close>

definition demo_self2 :: qdrant_search_obj where
  "demo_self2 = demo_self\<lparr>resumes := [''python'', ''java'']\<rparr>"

definition demo_self0 :: qdrant_search_obj where
  "demo_self0 = demo_self\<lparr>resumes := []\<rparr>"

definition ranked_results :: "match_result list" where
  "ranked_results =
     [\<lparr>result_text = ''{text: python backend develope'', result_score = 9\<rparr>,
      \<lparr>result_text = ''{text: java}'', result_score = 5\<rparr>,
      \<lparr>result_text = ''None'', result_score = 1\<rparr>]"

section \<open>The world after a call or a log line\<close>

lemma calls_record_call [simp]: "calls (record_call c w) = calls w @ [c]"
  by (simp add: record_call_def)

lemma store_record_call [simp]: "store (record_call c w) = store w"
  by (simp add: record_call_def)

lemma logged_record_call [simp]: "logged (record_call c w) = logged w"
  by (simp add: record_call_def)

lemma calls_write_log [simp]: "calls (write_log l w) = calls w"
  by (simp add: write_log_def)

lemma store_write_log [simp]: "store (write_log l w) = store w"
  by (simp add: write_log_def)

lemma logged_write_log [simp]: "logged (write_log l w) = logged w @ [l]"
  by (simp add: write_log_def)

lemmas demo_defs =
  demo_env_def ranked_env_def embed_fails_env_def search_fails_env_def no_config_env_def
  bad_yaml_env_def world0_def demo_config_def ranked_hits_def text_payload_def dot_def
  collection_name_def demo_self_def

lemmas fun_defs =
  get_similarity_score_def QdrantSearch_init_def read_config_def update_qdrant_def search_def
  get_embedding_def record_call_def write_log_def

section \<open>Embedding one text\<close>

lemma get_embedding_some:
  "embedding_of env t = Some v \<Longrightarrow>
   get_embedding env self t w = (Some (v, length v), record_call (Embed [t] ''large'') w)"
  by (auto simp: embedding_of_def get_embedding_def Let_def split: sum.splits list.splits)

lemma get_embedding_none:
  "embedding_of env t = None \<Longrightarrow>
   \<exists>e. get_embedding env self t w =
     (None, write_log (LogError ''Error getting embeddings'' e)
              (record_call (Embed [t] ''large'') w))"
  by (auto simp: embedding_of_def get_embedding_def Let_def split: sum.splits list.splits)

lemma get_embedding_calls:
  "calls (snd (get_embedding env self t w)) = calls w @ [Embed [t] ''large'']"
  by (cases "embedding_of env t")
     (use get_embedding_none[of env t self w] in auto, simp add: get_embedding_some)

lemma get_embedding_store: "store (snd (get_embedding env self t w)) = store w"
  by (cases "embedding_of env t")
     (use get_embedding_none[of env t self w] in auto, simp add: get_embedding_some)

section \<open>The search and its results\<close>

lemma collect_results_append:
  "collect_results env hits results = results @ map (to_result env) hits"
  by (induction hits arbitrary: results) (simp_all add: to_result_def)

lemma search_ok:
  assumes a: "search env self w = (Inr results, w')"
  shows "\<exists>v hits. embedding_of env (jd self) = Some v
     \<and> qdrant_search env (store w) collection_name v 30 = Inr hits
     \<and> results = map (to_result env) hits
     \<and> w' = record_call (Search collection_name v 30)
            (record_call (Embed [jd self] ''large'') w)"
proof (cases "embedding_of env (jd self)")
  case None
  from get_embedding_none[OF None, of self w] obtain e where
    "get_embedding env self (jd self) w =
      (None, write_log (LogError ''Error getting embeddings'' e)
               (record_call (Embed [jd self] ''large'') w))"
    by blast
  with a show ?thesis by (simp add: search_def)
next
  case (Some v)
  from a show ?thesis
    by (auto simp: search_def get_embedding_some[OF Some] Let_def Some collect_results_append
             split: sum.splits)
qed

text \<open>
  C5. Whenever \<^verbatim>\<open>search\<close> returns, its result is the list of hits the store answered
  the query with, each hit turned into the pair of the first 30 characters of the string
  rendering of its payload and its score, in the order of the hits.
\<close>

theorem search_maps_hits:
  assumes "search env self w = (Inr results, w')"
  shows "\<exists>vector hits.
           qdrant_search env (store w) collection_name vector 30 = Inr hits
         \<and> results =
             map (\<lambda>h. \<lparr>result_text = take 30 (py_str env (hit_payload h)),
                        result_score = hit_score h\<rparr>) hits"
  using search_ok[OF assms] unfolding to_result_def by blast

theorem search_maps_hits_witness:
  "search ranked_env demo_self world0 =
     (Inr [\<lparr>result_text = ''{text: python backend develope'', result_score = 9\<rparr>,
           \<lparr>result_text = ''{text: java}'', result_score = 5\<rparr>,
           \<lparr>result_text = ''None'', result_score = 1\<rparr>],
      snd (search ranked_env demo_self world0))
   \<and> (\<exists>vector hits.
           qdrant_search ranked_env (store world0) collection_name vector 30 = Inr hits
         \<and> [\<lparr>result_text = ''{text: python backend develope'', result_score = 9\<rparr>,
              \<lparr>result_text = ''{text: java}'', result_score = 5\<rparr>,
              \<lparr>result_text = ''None'', result_score = 1\<rparr>] =
             map (\<lambda>h. \<lparr>result_text = take 30 (py_str ranked_env (hit_payload h)),
                        result_score = hit_score h\<rparr>) hits)"
proof -
  have h: "search ranked_env demo_self world0 =
     (Inr [\<lparr>result_text = ''{text: python backend develope'', result_score = 9\<rparr>,
           \<lparr>result_text = ''{text: java}'', result_score = 5\<rparr>,
           \<lparr>result_text = ''None'', result_score = 1\<rparr>],
      snd (search ranked_env demo_self world0))"
    by (simp add: demo_defs fun_defs)
  from search_maps_hits[OF h] h show ?thesis by blast
qed

section \<open>Failures of the services\<close>

text \<open>
  C1. A failing embedding call is logged by \<^verbatim>\<open>get_embedding\<close>, which then returns
  \<^verbatim>\<open>None\<close>; the caller's tuple assignment raises \<^verbatim>\<open>TypeError\<close>, which reaches the
  caller of \<^verbatim>\<open>get_similarity_score\<close>. A failing search call is neither caught nor
  logged. Both runs below end in an exception, not in a list.
\<close>

theorem collaborator_failures_propagate:
  "get_similarity_score embed_fails_env ''python'' ''backend'' world0 =
     (Inl TypeError,
      \<lparr>store = [],
       calls = [RecreateCollection collection_name 4096 COSINE, Embed [''python''] ''large''],
       logged = [LogInfo ''Started getting similarity score'',
                 LogError ''Error getting embeddings'' (Raised ''timeout'')]\<rparr>)
   \<and> fst (get_similarity_score search_fails_env ''python'' ''backend'' world0) =
       Inl (Raised ''unavailable'')
   \<and> logged (snd (get_similarity_score search_fails_env ''python'' ''backend'' world0)) =
       [LogInfo ''Started getting similarity score'']"
  by (simp add: demo_defs fun_defs)

section \<open>More on the search\<close>

lemma search_none:
  assumes "embedding_of env (jd self) = None"
  shows "fst (search env self w) = Inl TypeError
       \<and> calls (snd (search env self w)) = calls w @ [Embed [jd self] ''large'']
       \<and> store (snd (search env self w)) = store w"
proof -
  from get_embedding_none[OF assms, of self w] obtain e where
    "get_embedding env self (jd self) w =
      (None, write_log (LogError ''Error getting embeddings'' e)
               (record_call (Embed [jd self] ''large'') w))"
    by blast
  then show ?thesis by (simp add: search_def)
qed

lemma search_some:
  assumes "embedding_of env (jd self) = Some v"
  shows "search env self w =
     (case qdrant_search env (store w) collection_name v 30 of
        Inl e \<Rightarrow> Inl e
      | Inr hits \<Rightarrow> Inr (map (to_result env) hits),
      record_call (Search collection_name v 30) (record_call (Embed [jd self] ''large'') w))"
  by (simp add: search_def get_embedding_some[OF assms] Let_def collect_results_append
           split: sum.splits)


lemma search_store: "store (snd (search env self w)) = store w"
  by (cases "embedding_of env (jd self)") (simp_all add: search_none search_some)

section \<open>The constructor\<close>

lemma init_cases:
  assumes "QdrantSearch_init env rs j w = (res, w')"
  shows "(\<exists>e. res = Inl e \<and> calls w' = calls w \<and> store w' = store w)
       \<or> (calls w' = calls w @ [RecreateCollection collection_name 4096 COSINE]
          \<and> store w' = snd (recreate_collection env (store w) collection_name 4096 COSINE)
          \<and> (case fst (recreate_collection env (store w) collection_name 4096 COSINE) of
                Some e \<Rightarrow> res = Inl e
              | None \<Rightarrow> (\<exists>ck qk qu. res = Inr \<lparr>cohere_key = ck, qdrant_key = qk, qdrant_url = qu,
                                              resumes = rs, jd = j\<rparr>)))"
  using assms
  by (auto simp: QdrantSearch_init_def read_config_def Let_def
           split: sum.splits option.splits prod.splits)

lemma init_ok:
  assumes "QdrantSearch_init env rs j w = (Inr self, w')"
  shows "resumes self = rs \<and> jd self = j
       \<and> calls w' = calls w @ [RecreateCollection collection_name 4096 COSINE]"
  using init_cases[OF assms] by (auto split: option.splits)

lemma init_ok_store:
  assumes "QdrantSearch_init env rs j w = (Inr self, w')"
  shows "store w' = created_store env (store w)
       \<and> fst (recreate_collection env (store w) collection_name 4096 COSINE) = None"
  using init_cases[OF assms] by (auto simp: created_store_def split: option.splits)

section \<open>The loop over the resumes and the upsert\<close>

lemma embed_resumes_all_ok:
  "\<forall>r\<in>set rs. embedding_of env r \<noteq> None \<Longrightarrow>
   embed_resumes env self rs i vs ids w =
     (Inr (vs @ map (\<lambda>r. the (embedding_of env r)) rs, ids @ [i..<i + length rs]),
      w\<lparr>calls := calls w @ map (\<lambda>r. Embed [r] ''large'') rs\<rparr>)"
proof (induction rs arbitrary: i vs ids w)
  case Nil
  then show ?case by simp
next
  case (Cons r rs)
  from Cons.prems obtain v where v: "embedding_of env r = Some v" by auto
  from Cons.prems have rest: "\<forall>r\<in>set rs. embedding_of env r \<noteq> None" by simp
  have "i < i + length (r # rs)" by simp
  then have "[i..<i + length (r # rs)] = i # [Suc i..<i + length (r # rs)]"
    by (rule upt_conv_Cons)
  moreover have "i + length (r # rs) = Suc i + length rs" by simp
  ultimately have upt: "[i..<i + length (r # rs)] = i # [Suc i..<Suc i + length rs]"
    by (simp only:)
  show ?case
    unfolding upt by (simp add: get_embedding_some[OF v] Cons.IH[OF rest] v record_call_def)
qed

lemma embed_resumes_some_fail:
  "\<not> (\<forall>r\<in>set rs. embedding_of env r \<noteq> None) \<Longrightarrow>
   \<exists>w' k. embed_resumes env self rs i vs ids w = (Inl TypeError, w')
     \<and> store w' = store w
     \<and> calls w' = calls w @ map (\<lambda>r. Embed [r] ''large'') (take k rs)"
proof (induction rs arbitrary: i vs ids w)
  case Nil
  then show ?case by simp
next
  case (Cons r rs)
  show ?case
  proof (cases "embedding_of env r")
    case None
    from get_embedding_none[OF None, of self w] obtain e where
      e: "get_embedding env self r w =
        (None, write_log (LogError ''Error getting embeddings'' e)
                 (record_call (Embed [r] ''large'') w))" by blast
    have "calls w @ [Embed [r] ''large''] = calls w @ map (\<lambda>r. Embed [r] ''large'') (take 1 (r # rs))"
      by simp
    with e show ?thesis by (simp del: take_Suc_Cons take_Cons_numeral) blast 
  next
    case (Some v)
    with Cons.prems have rest: "\<not> (\<forall>r\<in>set rs. embedding_of env r \<noteq> None)" by simp
    from Cons.IH[OF rest, of "Suc i" "vs @ [v]" "ids @ [i]" "record_call (Embed [r] ''large'') w"]
    obtain w' k where
      h: "embed_resumes env self rs (Suc i) (vs @ [v]) (ids @ [i]) (record_call (Embed [r] ''large'') w)
            = (Inl TypeError, w')"
         "store w' = store w"
         "calls w' = calls w @ [Embed [r] ''large''] @ map (\<lambda>r. Embed [r] ''large'') (take k rs)"
      by auto
    have "calls w' = calls w @ map (\<lambda>r. Embed [r] ''large'') (take (Suc k) (r # rs))"
      using h(3) by simp
    with h(1,2) show ?thesis
      by (simp add: get_embedding_some[OF Some] del: take_Suc_Cons) blast
  qed
qed

lemma map_text_payload:
  "map (\<lambda>resume. PyDict [(''text'', PyStr resume)]) rs = map text_payload rs"
  by (simp add: text_payload_def)

lemma update_qdrant_all_ok:
  assumes "\<forall>r\<in>set (resumes self). embedding_of env r \<noteq> None"
  shows "fst (update_qdrant env self w) = Inr ()
       \<and> calls (snd (update_qdrant env self w)) =
           calls w @ map (\<lambda>r. Embed [r] ''large'') (resumes self) @ [upsert_call env (resumes self)]
       \<and> store (snd (update_qdrant env self w)) =
           snd (upsert env (store w) collection_name [0..<length (resumes self)]
                  (map (\<lambda>r. the (embedding_of env r)) (resumes self))
                  (map text_payload (resumes self)))"
  by (auto simp: update_qdrant_def embed_resumes_all_ok[OF assms] Let_def upsert_call_def
        map_text_payload split: prod.splits option.splits)

lemma update_qdrant_some_fail:
  assumes "\<not> (\<forall>r\<in>set (resumes self). embedding_of env r \<noteq> None)"
  shows "\<exists>k. fst (update_qdrant env self w) = Inl TypeError
       \<and> calls (snd (update_qdrant env self w)) =
           calls w @ map (\<lambda>r. Embed [r] ''large'') (take k (resumes self))
       \<and> store (snd (update_qdrant env self w)) = store w"
proof -
  from embed_resumes_some_fail[OF assms, of self 0 "[]" "[]" w] obtain w' k where
    "embed_resumes env self (resumes self) 0 [] [] w = (Inl TypeError, w')"
    "store w' = store w"
    "calls w' = calls w @ map (\<lambda>r. Embed [r] ''large'') (take k (resumes self))"
    by blast
  then show ?thesis by (auto simp: update_qdrant_def)
qed

lemma new_calls_append: "calls w' = calls w @ X \<Longrightarrow> new_calls w w' = X"
  by (simp add: new_calls_def)

text \<open>
  C6. For a list of \<open>n\<close> resumes, every upsert that \<^verbatim>\<open>update_qdrant\<close> issues carries
  the identifiers \<open>0, ..., n - 1\<close> in order, the embeddings of the resumes in the same
  order, and one payload \<^verbatim>\<open>{"text": resume}\<close> per resume with the original text. When
  the embedding service answers for every resume, the method makes one embedding call per
  resume, then hands exactly that batch to the store's upsert, whose resulting store is
  the store it leaves, and returns normally. When it issues no upsert, it leaves the store
  as it found it.
\<close>

theorem update_qdrant_sequential_ids:
  "(\<forall>c\<in>set (new_calls w (snd (update_qdrant env self w))).
       is_Upsert c \<longrightarrow>
       c = Upsert collection_name [0..<length (resumes self)]
             (map (\<lambda>r. the (embedding_of env r)) (resumes self))
             (map text_payload (resumes self)))
   \<and> ((\<forall>r\<in>set (resumes self). embedding_of env r \<noteq> None) \<longrightarrow>
        fst (update_qdrant env self w) = Inr ()
      \<and> new_calls w (snd (update_qdrant env self w)) =
          map (\<lambda>r. Embed [r] ''large'') (resumes self) @
          [Upsert collection_name [0..<length (resumes self)]
             (map (\<lambda>r. the (embedding_of env r)) (resumes self))
             (map text_payload (resumes self))]
      \<and> store (snd (update_qdrant env self w)) =
          snd (upsert env (store w) collection_name [0..<length (resumes self)]
                 (map (\<lambda>r. the (embedding_of env r)) (resumes self))
                 (map text_payload (resumes self))))
   \<and> ((\<forall>c\<in>set (new_calls w (snd (update_qdrant env self w))). \<not> is_Upsert c) \<longrightarrow>
        store (snd (update_qdrant env self w)) = store w)"
proof (cases "\<forall>r\<in>set (resumes self). embedding_of env r \<noteq> None")
  case True
  from update_qdrant_all_ok[OF True, of w] have
    "fst (update_qdrant env self w) = Inr ()"
    "new_calls w (snd (update_qdrant env self w)) =
       map (\<lambda>r. Embed [r] ''large'') (resumes self) @ [upsert_call env (resumes self)]"
    "store (snd (update_qdrant env self w)) =
       snd (upsert env (store w) collection_name [0..<length (resumes self)]
              (map (\<lambda>r. the (embedding_of env r)) (resumes self))
              (map text_payload (resumes self)))"
    by (simp_all add: new_calls_def)
  then show ?thesis by (auto simp: upsert_call_def)
next
  case False
  from update_qdrant_some_fail[OF False, of w] obtain k where
    "new_calls w (snd (update_qdrant env self w)) =
       map (\<lambda>r. Embed [r] ''large'') (take k (resumes self))"
    "store (snd (update_qdrant env self w)) = store w"
    by (auto simp: new_calls_def)
  with False show ?thesis by auto
qed

text \<open>
  Two resumes with the example services: the points 0 and 1 are added to the store.
\<close>

theorem update_qdrant_sequential_ids_witness:
  "embedding_of demo_env ''python'' \<noteq> None \<and> embedding_of demo_env ''java'' \<noteq> None
   \<and> fst (update_qdrant demo_env demo_self2 world0) = Inr ()
   \<and> new_calls world0 (snd (update_qdrant demo_env demo_self2 world0)) =
       [Embed [''python''] ''large'', Embed [''java''] ''large'',
        Upsert collection_name [0, 1] [[6, 1], [4, 1]]
          [text_payload ''python'', text_payload ''java'']]
   \<and> store (snd (update_qdrant demo_env demo_self2 world0)) =
       [(7, [1, 1], text_payload ''old''),
        (0, [6, 1], text_payload ''python''),
        (1, [4, 1], text_payload ''java'')]"
proof -
  have e: "embedding_of demo_env ''python'' = Some [6, 1]"
          "embedding_of demo_env ''java'' = Some [4, 1]"
    by (simp_all add: embedding_of_def demo_env_def)
  have r: "resumes demo_self2 = [''python'', ''java'']"
    by (simp add: demo_self2_def demo_self_def)
  have h: "\<forall>r\<in>set (resumes demo_self2). embedding_of demo_env r \<noteq> None"
    by (simp add: r e)
  have u: "snd (upsert demo_env (store world0) collection_name [0, 1] [[6, 1], [4, 1]]
                 [text_payload ''python'', text_payload ''java'']) =
       [(7, [1, 1], text_payload ''old''),
        (0, [6, 1], text_payload ''python''),
        (1, [4, 1], text_payload ''java'')]"
    by (simp add: demo_env_def world0_def)
  from update_qdrant_sequential_ids[of world0 demo_env demo_self2,
         THEN conjunct2, THEN conjunct1, THEN mp, OF h] e u
  show ?thesis by (simp add: r)
qed

section \<open>A whole invocation\<close>

lemma update_single_none:
  assumes "resumes self = [r]" "embedding_of env r = None"
  shows "fst (update_qdrant env self w) = Inl TypeError
       \<and> calls (snd (update_qdrant env self w)) = calls w @ [Embed [r] ''large'']"
proof -
  from get_embedding_none[OF assms(2), of self w] obtain e where
    "get_embedding env self r w =
      (None, write_log (LogError ''Error getting embeddings'' e)
               (record_call (Embed [r] ''large'') w))"
    by blast
  then show ?thesis by (simp add: update_qdrant_def assms(1))
qed

lemma update_single_some:
  assumes "resumes self = [r]" "embedding_of env r = Some v"
  shows "fst (update_qdrant env self w) = Inr ()
       \<and> calls (snd (update_qdrant env self w)) =
           calls w @ [Embed [r] ''large'', Upsert collection_name [0] [v] [text_payload r]]"
  using update_qdrant_all_ok[of self env w] assms by (simp add: upsert_call_def)

lemma update_single_none_store:
  assumes "resumes self = [r]" "embedding_of env r = None"
  shows "store (snd (update_qdrant env self w)) = store w"
  using update_qdrant_some_fail[of self env w] assms by auto

lemma update_single_some_store:
  assumes "resumes self = [r]" "embedding_of env r = Some v"
  shows "store (snd (update_qdrant env self w)) =
           snd (upsert env (store w) collection_name [0] [v] [text_payload r])"
  using update_qdrant_all_ok[of self env w] assms by simp

lemma gss_init_fails:
  assumes "QdrantSearch_init env [r] j (write_log (LogInfo ''Started getting similarity score'') w)
             = (Inl e, w1)"
  shows "get_similarity_score env r j w = (Inl e, w1)"
  using assms by (simp add: get_similarity_score_def Let_def)

lemma gss_init_ok:
  assumes "QdrantSearch_init env [r] j (write_log (LogInfo ''Started getting similarity score'') w)
             = (Inr self, w1)"
  shows "get_similarity_score env r j w =
     (case update_qdrant env self w1 of
        (Inl e, w2) \<Rightarrow> (Inl e, w2)
      | (Inr _, w2) \<Rightarrow>
          (case search env self w2 of
             (Inl e, w3) \<Rightarrow> (Inl e, w3)
           | (Inr search_result, w3) \<Rightarrow>
               (Inr search_result,
                write_log (LogInfo ''Finished getting similarity score'') w3)))"
  using assms by (simp add: get_similarity_score_def Let_def)


lemma gss_ok_calls:
  assumes "fst (get_similarity_score env r j w) = Inr results"
  shows "calls (snd (get_similarity_score env r j w)) = calls w @ full_run env r j
       \<and> embedding_of env r \<noteq> None \<and> embedding_of env j \<noteq> None"
proof -
  let ?w0 = "write_log (LogInfo ''Started getting similarity score'') w"
  let ?R = "RecreateCollection collection_name 4096 COSINE"
  obtain res w1 where init: "QdrantSearch_init env [r] j ?w0 = (res, w1)"
    by (cases "QdrantSearch_init env [r] j ?w0")
  show ?thesis
  proof (cases res)
    case (Inl e)
    with gss_init_fails[OF init[unfolded Inl]] assms show ?thesis by simp
  next
    case (Inr self)
    from init_ok[OF init[unfolded Inr]] have
      self: "resumes self = [r]" "jd self = j" and c1: "calls w1 = calls w @ [?R]" by auto
    note gss = gss_init_ok[OF init[unfolded Inr]]
    obtain x w2 where u: "update_qdrant env self w1 = (x, w2)"
      by (cases "update_qdrant env self w1")
    obtain y w3 where s: "search env self w2 = (y, w3)"
      by (cases "search env self w2")
    from assms have x: "x = Inr ()" and y: "y = Inr results"
      by (auto simp: gss u s split: sum.splits)
    have er: "embedding_of env r \<noteq> None"
      using update_single_none[OF self(1), of env w1] u x by auto
    then obtain v where v: "embedding_of env r = Some v" by auto
    from update_single_some[OF self(1) v, of w1] u
    have c2: "calls w2 = calls w @ [?R, Embed [r] ''large'', Upsert collection_name [0] [v] [text_payload r]]"
      by (simp add: c1)
    have ej: "embedding_of env j \<noteq> None"
      using search_none[of env self w2] s y self(2) by auto
    then obtain vj where vj: "embedding_of env j = Some vj" by auto
    from search_some[of env self vj w2] vj self(2) s
    have c3: "calls w3 = calls w2 @ [Embed [j] ''large'', Search collection_name vj 30]"
      by auto
    show ?thesis using er ej by (simp add: gss u x s y c3 c2 full_run_def v vj)
  qed
qed

lemma gss_ok_results:
  assumes run: "get_similarity_score env r j w = (Inr results, w')"
  shows "\<exists>v hits. embedding_of env j = Some v
       \<and> qdrant_search env (store w') collection_name v 30 = Inr hits
       \<and> results = map (to_result env) hits
       \<and> calls w' = calls w @ full_run env r j"
proof -
  let ?w0 = "write_log (LogInfo ''Started getting similarity score'') w"
  obtain res w1 where init: "QdrantSearch_init env [r] j ?w0 = (res, w1)"
    by (cases "QdrantSearch_init env [r] j ?w0")
  show ?thesis
  proof (cases res)
    case (Inl e)
    with gss_init_fails[OF init[unfolded Inl]] run show ?thesis by simp
  next
    case (Inr self)
    from init_ok[OF init[unfolded Inr]] have self: "jd self = j" by simp
    note gss = gss_init_ok[OF init[unfolded Inr]]
    obtain x w2 where u: "update_qdrant env self w1 = (x, w2)"
      by (cases "update_qdrant env self w1")
    obtain y w3 where s: "search env self w2 = (y, w3)"
      by (cases "search env self w2")
    from run have y: "y = Inr results"
      and w': "w' = write_log (LogInfo ''Finished getting similarity score'') w3"
      by (auto simp: gss u s split: sum.splits)
    from search_ok[OF s[unfolded y]] obtain v hits where
      h: "embedding_of env j = Some v"
         "qdrant_search env (store w2) collection_name v 30 = Inr hits"
         "results = map (to_result env) hits"
         "w3 = record_call (Search collection_name v 30) (record_call (Embed [jd self] ''large'') w2)"
      by (auto simp: self)
    have "store w' = store w2" by (simp add: w' h(4))
    moreover have "calls w' = calls w @ full_run env r j"
      using gss_ok_calls[of env r j w results] run by simp
    ultimately show ?thesis using h by auto
  qed
qed

text \<open>
  The calls and the store of an invocation together: the calls are a prefix of the five of
  a full run, and the store is the one the calls made so far have produced.
\<close>

lemma gss_run:
  "\<exists>k. calls (snd (get_similarity_score env r j w)) = calls w @ take k (full_run env r j)
     \<and> store (snd (get_similarity_score env r j w)) =
         (if k = 0 then store w
          else if k < 3 then created_store env (store w)
          else upserted_store env r (store w))
     \<and> ((\<exists>self w1. QdrantSearch_init env [r] j
                       (write_log (LogInfo ''Started getting similarity score'') w) = (Inr self, w1))
          \<and> embedding_of env r \<noteq> None \<longrightarrow> 3 \<le> k)
     \<and> ((\<exists>results. fst (get_similarity_score env r j w) = Inr results) \<longrightarrow> k = 5)"
proof -
  let ?w0 = "write_log (LogInfo ''Started getting similarity score'') w"
  let ?R = "RecreateCollection collection_name 4096 COSINE"
  let ?G = "get_similarity_score env r j w"
  let ?P = "\<lambda>k. calls (snd ?G) = calls w @ take k (full_run env r j)
     \<and> store (snd ?G) =
         (if k = 0 then store w
          else if k < 3 then created_store env (store w)
          else upserted_store env r (store w))
     \<and> ((\<exists>self w1. QdrantSearch_init env [r] j ?w0 = (Inr self, w1))
          \<and> embedding_of env r \<noteq> None \<longrightarrow> 3 \<le> k)
     \<and> ((\<exists>results. fst ?G = Inr results) \<longrightarrow> k = 5)"
  obtain res w1 where init: "QdrantSearch_init env [r] j ?w0 = (res, w1)"
    by (cases "QdrantSearch_init env [r] j ?w0")
  show ?thesis
  proof (cases res)
    case (Inl e)
    have g: "?G = (Inl e, w1)" by (rule gss_init_fails[OF init[unfolded Inl]])
    from init_cases[OF init] have
      "(calls w1 = calls w \<and> store w1 = store w)
       \<or> (calls w1 = calls w @ [?R] \<and> store w1 = created_store env (store w))"
      by (auto simp: created_store_def)
    then have "?P 0 \<or> ?P 1"
      by (auto simp: g init Inl full_run_def)
    then show ?thesis by blast
  next
    case (Inr self)
    note i = init[unfolded Inr]
    from init_ok[OF i] init_ok_store[OF i] have
      self: "resumes self = [r]" "jd self = j" and c1: "calls w1 = calls w @ [?R]"
      and s1: "store w1 = created_store env (store w)" by auto
    note gss = gss_init_ok[OF i]
    obtain x w2 where u: "update_qdrant env self w1 = (x, w2)"
      by (cases "update_qdrant env self w1")
    show ?thesis
    proof (cases "embedding_of env r")
      case None
      with update_single_none[OF self(1) None, of w1] update_single_none_store[OF self(1) None, of w1] u
      have "x = Inl TypeError" "calls w2 = calls w @ take 2 (full_run env r j)"
           "store w2 = created_store env (store w)"
        by (simp_all add: c1 s1 full_run_def)
      then have "?P 2" by (simp add: gss u None)
      then show ?thesis by blast
    next
      case (Some v)
      with update_single_some[OF self(1) Some, of w1] update_single_some_store[OF self(1) Some, of w1] u
      have x: "x = Inr ()" and c2: "calls w2 = calls w @ take 3 (full_run env r j)"
        and s2: "store w2 = upserted_store env r (store w)"
        by (simp_all add: c1 s1 full_run_def upserted_store_def)
      obtain y w3 where s: "search env self w2 = (y, w3)"
        by (cases "search env self w2")
      have s3: "store w3 = upserted_store env r (store w)"
        using search_store[of env self w2] s s2 by simp
      show ?thesis
      proof (cases "embedding_of env j")
        case None
        from search_none[OF None[folded self(2)], of w2] s
        have "y = Inl TypeError" "calls w3 = calls w @ take 4 (full_run env r j)"
          by (simp_all add: c2 self(2) full_run_def)
        then have "?P 4" by (simp add: gss u x s s3)
        then show ?thesis by blast
      next
        case (Some vj)
        from search_some[OF Some[folded self(2)], of w2] s
        have "calls w3 = calls w @ take 5 (full_run env r j)"
          by (auto simp: c2 self(2) full_run_def Some)
        then have "?P 5" by (cases y) (simp_all add: gss u x s s3)
        then show ?thesis by blast
      qed
    qed
  qed
qed

lemma gss_ok_created:
  assumes "fst (get_similarity_score env r j w) = Inr results"
  shows "fst (recreate_collection env (store w) collection_name 4096 COSINE) = None"
proof -
  let ?w0 = "write_log (LogInfo ''Started getting similarity score'') w"
  obtain res w1 where init: "QdrantSearch_init env [r] j ?w0 = (res, w1)"
    by (cases "QdrantSearch_init env [r] j ?w0")
  show ?thesis
  proof (cases res)
    case (Inl e)
    with gss_init_fails[OF init[unfolded Inl]] assms show ?thesis by simp
  next
    case (Inr self)
    from init_ok_store[OF init[unfolded Inr]] show ?thesis by simp
  qed
qed


text \<open>
  Runs with the example services.
\<close>

lemma ranked_run:
  "get_similarity_score ranked_env ''python'' ''backend'' world0 =
     (Inr ranked_results, snd (get_similarity_score ranked_env ''python'' ''backend'' world0))"
  by (simp add: demo_defs fun_defs ranked_results_def)




lemmas journal_defs = journal_env_def journal_embed_fails_env_def journal_world0_def
  recreate_fails_env_def demo_self0_def created_store_def upserted_store_def embedding_of_def

section \<open>The configuration\<close>

text \<open>
  C2. The specification asks for a configuration error when the configuration cannot be
  loaded. The code does not give one: \<^verbatim>\<open>read_config\<close> logs the failure (file missing,
  malformed YAML, or any other read error) and returns \<^verbatim>\<open>None\<close>, and the constructor
  subscripts that \<^verbatim>\<open>None\<close> without the guard the script's own main block applies to the
  same function's result. The caller of \<^verbatim>\<open>get_similarity_score\<close> receives a
  \<^verbatim>\<open>TypeError\<close>, before any service is called.
\<close>

theorem config_failure_raises_TypeError:
  assumes "load_yaml env (config_path env @ ''/config.yml'') = Inl e"
  shows "get_similarity_score env r j w =
     (Inl TypeError,
      w\<lparr>logged := logged w @ [LogInfo ''Started getting similarity score'',
                                LogError (config_error_message e) e]\<rparr>)"
  using assms
  by (simp add: get_similarity_score_def QdrantSearch_init_def read_config_def write_log_def Let_def)

text \<open>
  A malformed configuration file.
\<close>

theorem config_failure_raises_TypeError_witness:
  "load_yaml bad_yaml_env (config_path bad_yaml_env @ ''/config.yml'') = Inl YAMLError
   \<and> get_similarity_score bad_yaml_env ''python'' ''backend'' world0 =
       (Inl TypeError,
        world0\<lparr>logged := [LogInfo ''Started getting similarity score'',
                           LogError ''Error parsing YAML in configuration file'' YAMLError]\<rparr>)"
proof -
  have h: "load_yaml bad_yaml_env (config_path bad_yaml_env @ ''/config.yml'') = Inl YAMLError"
    by (simp add: bad_yaml_env_def demo_env_def)
  from config_failure_raises_TypeError[OF h, of "''python''" "''backend''" world0] h
  show ?thesis by (simp add: world0_def)
qed

text \<open>
  The two runs, with a missing and with a malformed configuration file.
\<close>

theorem config_failure_runs:
  "fst (get_similarity_score no_config_env ''python'' ''backend'' world0) = Inl TypeError
   \<and> fst (get_similarity_score no_config_env ''python'' ''backend'' world0) \<noteq> Inl ConfigurationError
   \<and> fst (get_similarity_score bad_yaml_env ''python'' ''backend'' world0) = Inl TypeError
   \<and> fst (get_similarity_score bad_yaml_env ''python'' ''backend'' world0) \<noteq> Inl ConfigurationError"
  by (simp add: demo_defs fun_defs)

section \<open>The result list\<close>

text \<open>
  C3. When the store honours the limit of a query, the list that
  \<^verbatim>\<open>get_similarity_score\<close> returns has at most 30 elements: the last call of the
  invocation is the query, issued with limit 30, and the result has exactly one element
  per hit of its answer.
\<close>

theorem result_length_at_most_30:
  assumes limit: "\<And>s c q k hits. qdrant_search env s c q k = Inr hits \<Longrightarrow> length hits \<le> k"
      and run: "get_similarity_score env r j w = (Inr results, w')"
  shows "length results \<le> 30
       \<and> (\<exists>q hits. last (calls w') = Search collection_name q 30
             \<and> qdrant_search env (store w') collection_name q 30 = Inr hits
             \<and> length results = length hits)"
proof -
  from gss_ok_results[OF run] obtain v hits where
    h: "embedding_of env j = Some v"
       "qdrant_search env (store w') collection_name v 30 = Inr hits"
       "results = map (to_result env) hits"
       "calls w' = calls w @ full_run env r j"
    by blast
  from limit[OF h(2)] h(3) have "length results \<le> 30" by simp
  moreover have "last (calls w') = Search collection_name v 30"
    by (simp add: h(4) full_run_def h(1))
  ultimately show ?thesis using h(2,3) by auto
qed

text \<open>
  Three hits from the fixed store.
\<close>

theorem result_length_at_most_30_witness:
  "get_similarity_score ranked_env ''python'' ''backend'' world0 =
     (Inr ranked_results, snd (get_similarity_score ranked_env ''python'' ''backend'' world0))
   \<and> length ranked_results \<le> 30
   \<and> (\<exists>q hits.
         last (calls (snd (get_similarity_score ranked_env ''python'' ''backend'' world0))) =
           Search collection_name q 30
       \<and> qdrant_search ranked_env
           (store (snd (get_similarity_score ranked_env ''python'' ''backend'' world0)))
           collection_name q 30 = Inr hits
       \<and> length ranked_results = length hits)"
proof -
  have lim: "\<And>s c q k hits. qdrant_search ranked_env s c q k = Inr hits \<Longrightarrow> length hits \<le> k"
    by (auto simp: ranked_env_def demo_env_def)
  have "length ranked_results \<le> 30
   \<and> (\<exists>q hits.
         last (calls (snd (get_similarity_score ranked_env ''python'' ''backend'' world0))) =
           Search collection_name q 30
       \<and> qdrant_search ranked_env
           (store (snd (get_similarity_score ranked_env ''python'' ''backend'' world0)))
           collection_name q 30 = Inr hits
       \<and> length ranked_results = length hits)"
    by (rule result_length_at_most_30[where env = ranked_env, OF _ ranked_run]) (rule lim)
  with ranked_run show ?thesis by blast
qed

text \<open>
  C7. When the store returns its hits in descending order of score, the first result's
  score is at least the score of every later result.
\<close>

theorem scores_descend:
  assumes ranked: "\<And>s c q k hits. qdrant_search env s c q k = Inr hits \<Longrightarrow>
                     sorted_wrt (\<ge>) (map hit_score hits)"
      and run: "get_similarity_score env r j w = (Inr results, w')"
  shows "\<forall>i. 0 < i \<and> i < length results \<longrightarrow>
           result_score (results ! i) \<le> result_score (results ! 0)"
proof -
  from gss_ok_results[OF run] obtain v hits where
    h: "qdrant_search env (store w') collection_name v 30 = Inr hits"
       "results = map (to_result env) hits"
    by blast
  have "map result_score results = map hit_score hits"
    by (simp add: h(2) to_result_def)
  with ranked[OF h(1)] have s: "sorted_wrt (\<ge>) (map result_score results)" by simp
  show ?thesis
  proof (intro allI impI)
    fix i assume i: "0 < i \<and> i < length results"
    then have "map result_score results ! 0 \<ge> map result_score results ! i"
      using s by (intro sorted_wrt_nth_less[OF s]) auto
    moreover from i have "0 < length results" by linarith
    ultimately show "result_score (results ! i) \<le> result_score (results ! 0)"
      using i by simp
  qed
qed

text \<open>
  The three fixed hits have scores 9, 5 and 1.
\<close>

theorem scores_descend_witness:
  "get_similarity_score ranked_env ''python'' ''backend'' world0 =
     (Inr ranked_results, snd (get_similarity_score ranked_env ''python'' ''backend'' world0))
   \<and> result_score (ranked_results ! 1) \<le> result_score (ranked_results ! 0)
   \<and> result_score (ranked_results ! 2) \<le> result_score (ranked_results ! 0)"
proof -
  have "sorted_wrt (\<ge>) (map hit_score ranked_hits)"
    by (simp add: ranked_hits_def)
  then have "sorted_wrt (\<ge>) (take k (map hit_score ranked_hits))" for k
    by (rule sorted_wrt_take)
  then have ranked: "\<And>s c q k hits. qdrant_search ranked_env s c q k = Inr hits \<Longrightarrow>
                     sorted_wrt (\<ge>) (map hit_score hits)"
    by (auto simp: ranked_env_def demo_env_def take_map)
  have d: "\<forall>i. 0 < i \<and> i < length ranked_results \<longrightarrow>
           result_score (ranked_results ! i) \<le> result_score (ranked_results ! 0)"
    by (rule scores_descend[where env = ranked_env, OF _ ranked_run]) (rule ranked)
  have "result_score (ranked_results ! 1) \<le> result_score (ranked_results ! 0)"
    by (rule d[rule_format]) (simp add: ranked_results_def)
  moreover have "result_score (ranked_results ! 2) \<le> result_score (ranked_results ! 0)"
    by (rule d[rule_format]) (simp add: ranked_results_def)
  ultimately show ?thesis using ranked_run by simp
qed

section \<open>The collection\<close>

text \<open>
  C4, as the code has it. The constructor creates the collection with the constant size
  4096 and the cosine distance, whatever the length of the vectors the embedding service
  returns. An invocation that makes any call makes this one first, and its store is the
  one \<^verbatim>\<open>recreate_collection\<close> returned for that name, size and distance, or that store
  after the upsert of the resume; an invocation that makes no call leaves the store as it
  was; an invocation that returns a result has created the collection without an error
  and upserted into it.
\<close>

theorem collection_size_is_4096:
  "(\<forall>c\<in>set (new_calls w (snd (get_similarity_score env r j w))).
       is_RecreateCollection c \<longrightarrow> c = RecreateCollection collection_name 4096 COSINE)
   \<and> (new_calls w (snd (get_similarity_score env r j w)) = [] \<longrightarrow>
         store (snd (get_similarity_score env r j w)) = store w)
   \<and> (new_calls w (snd (get_similarity_score env r j w)) \<noteq> [] \<longrightarrow>
         hd (new_calls w (snd (get_similarity_score env r j w))) =
           RecreateCollection collection_name 4096 COSINE
       \<and> (store (snd (get_similarity_score env r j w)) = created_store env (store w)
          \<or> store (snd (get_similarity_score env r j w)) = upserted_store env r (store w)))
   \<and> (\<forall>results. fst (get_similarity_score env r j w) = Inr results \<longrightarrow>
         hd (new_calls w (snd (get_similarity_score env r j w))) =
           RecreateCollection collection_name 4096 COSINE
       \<and> fst (recreate_collection env (store w) collection_name 4096 COSINE) = None
       \<and> store (snd (get_similarity_score env r j w)) = upserted_store env r (store w))"
proof -
  let ?G = "get_similarity_score env r j w"
  let ?R = "RecreateCollection collection_name 4096 COSINE"
  from gss_run[of env r j w] obtain k where
    c: "calls (snd ?G) = calls w @ take k (full_run env r j)"
    and s: "store (snd ?G) =
         (if k = 0 then store w
          else if k < 3 then created_store env (store w)
          else upserted_store env r (store w))"
    and ok: "(\<exists>results. fst ?G = Inr results) \<longrightarrow> k = 5"
    by blast
  from c have n: "new_calls w (snd ?G) = take k (full_run env r j)"
    by (rule new_calls_append)
  have a: "\<forall>c\<in>set (take k (full_run env r j)). is_RecreateCollection c \<longrightarrow> c = ?R"
  proof
    fix c assume "c \<in> set (take k (full_run env r j))"
    then have "c \<in> set (full_run env r j)" by (rule in_set_takeD)
    then show "is_RecreateCollection c \<longrightarrow> c = ?R"
      by (auto simp: full_run_def)
  qed
  have e: "take k (full_run env r j) = [] \<longleftrightarrow> k = 0"
    by (simp add: full_run_def)
  have h: "k \<noteq> 0 \<Longrightarrow> hd (take k (full_run env r j)) = ?R"
    by (cases k) (simp_all add: full_run_def)
  have b: "take k (full_run env r j) = [] \<longrightarrow> store (snd ?G) = store w"
    using s e by simp
  have d: "take k (full_run env r j) \<noteq> [] \<longrightarrow>
        hd (take k (full_run env r j)) = ?R
      \<and> (store (snd ?G) = created_store env (store w)
         \<or> store (snd ?G) = upserted_store env r (store w))"
    using s e h by auto
  have f: "hd (take k (full_run env r j)) = ?R
       \<and> fst (recreate_collection env (store w) collection_name 4096 COSINE) = None
       \<and> store (snd ?G) = upserted_store env r (store w)"
    if "fst ?G = Inr results" for results
  proof -
    from ok that have "k = 5" by blast
    with s h gss_ok_created[OF that] show ?thesis by simp
  qed
  from a b d f show ?thesis unfolding n by blast
qed

text \<open>
  A run on the store that keeps what it was asked: the collection of size 2 it held is
  replaced by one of size 4096 with the one new point.
\<close>

theorem collection_size_is_4096_witness:
  "fst (get_similarity_score journal_env ''python'' ''backend'' journal_world0) =
     Inr [\<lparr>result_text = ''{text: python}'', result_score = 43\<rparr>]
   \<and> hd (new_calls journal_world0
           (snd (get_similarity_score journal_env ''python'' ''backend'' journal_world0))) =
       RecreateCollection collection_name 4096 COSINE
   \<and> store (snd (get_similarity_score journal_env ''python'' ''backend'' journal_world0)) =
       \<lparr>created = Some (4096, COSINE), batches = 1,
        points = [(0, [6, 1], text_payload ''python'')]\<rparr>"
proof -
  have run: "fst (get_similarity_score journal_env ''python'' ''backend'' journal_world0) =
     Inr [\<lparr>result_text = ''{text: python}'', result_score = 43\<rparr>]"
    by (simp add: journal_defs demo_defs fun_defs)
  have st: "upserted_store journal_env ''python'' (store journal_world0) =
       \<lparr>created = Some (4096, COSINE), batches = 1,
        points = [(0, [6, 1], text_payload ''python'')]\<rparr>"
    by (simp add: journal_defs)
  note t = collection_size_is_4096[of journal_world0 journal_env "''python''" "''backend''"]
  from t[THEN conjunct2, THEN conjunct2, THEN conjunct2, rule_format, OF run] run st
  show ?thesis by simp
qed

text \<open>
  The example embedding service returns vectors of two components; the collection is
  created with size 4096 all the same, and the two-component vector is upserted into it.
\<close>

theorem collection_size_counterexample:
  "store (snd (get_similarity_score journal_env ''python'' ''backend'' journal_world0)) =
     \<lparr>created = Some (4096, COSINE), batches = 1,
      points = [(0, [6, 1], text_payload ''python'')]\<rparr>
   \<and> calls (snd (get_similarity_score journal_env ''python'' ''backend'' journal_world0)) =
     [RecreateCollection collection_name 4096 COSINE,
      Embed [''python''] ''large'',
      Upsert collection_name [0] [[6, 1]] [text_payload ''python''],
      Embed [''backend''] ''large'',
      Search collection_name [7, 1] 30]
   \<and> embed journal_env [''python''] ''large'' = Inr [[6, 1]]
   \<and> length [6, 1 :: real] \<noteq> 4096"
  by (simp add: journal_defs demo_defs fun_defs)






section \<open>An empty resume list\<close>

text \<open>
  What \<^verbatim>\<open>update_qdrant\<close> does for an object constructed with no resume: no embedding
  call, one upsert of the empty batch into the collection just created, a normal return
  whatever the upsert answers.
\<close>

lemma empty_resume_list_update:
  assumes "QdrantSearch_init env [] j w0 = (Inr self, w)"
  shows "fst (update_qdrant env self w) = Inr ()
       \<and> new_calls w (snd (update_qdrant env self w)) = [Upsert collection_name [] [] []]
       \<and> store (snd (update_qdrant env self w)) =
           snd (upsert env (created_store env (store w0)) collection_name [] [] [])"
proof -
  from init_ok[OF assms] init_ok_store[OF assms] have
    self: "resumes self = []" and s: "store w = created_store env (store w0)" by simp_all
  show ?thesis
    using update_qdrant_all_ok[of self env w]
    by (simp add: self s new_calls_def upsert_call_def)
qed


section \<open>One point for each invocation\<close>




end
